theory Spec2Isabelle
  imports Main "HOL-Library.Char_ord" "HOL-Library.List_Lexorder"
begin

section \<open>The OAuth engine of oauth-starter-python\<close>

text \<open>
  A shallow embedding of \<^verbatim>\<open>oauth_starter/models.py\<close>, \<^verbatim>\<open>oauth_starter/database.py\<close>,
  \<^verbatim>\<open>oauth_starter/auth.py\<close> and of the redirect recovery of \<^verbatim>\<open>oauth_starter/app.py\<close>.

  Conventions of the model.
  \<^item> A \<^verbatim>\<open>datetime\<close> is the number of microseconds (the resolution of Python's
    \<^verbatim>\<open>datetime\<close>) since \<^verbatim>\<open>datetime.min\<close>; adding a \<^verbatim>\<open>timedelta\<close> raises OverflowError when
    the sum leaves the range of \<^verbatim>\<open>datetime\<close>. Every call of \<^verbatim>\<open>datetime.utcnow()\<close> is an
    argument of its own of the function that reads the clock.
  \<^item> A Python exception is a value \<open>Inl e\<close> of a sum type. A function that changes the
    database returns the database it leaves behind.
  \<^item> A table is the list of its rows in insertion order; \<^verbatim>\<open>query.filter(...).first()\<close> is
    \<open>find\<close>. Primary keys, \<^verbatim>\<open>unique=True\<close> and \<^verbatim>\<open>nullable=False\<close> of \<^verbatim>\<open>models.py\<close> are
    checked where a row is written, and a violation is \<open>IntegrityError\<close>.
  \<^item> The class \<^verbatim>\<open>Database\<close> binds the name \<^verbatim>\<open>get_session\<close> twice: the session factory at
    line 76 and the lookup of a \<^verbatim>\<open>Session\<close> row by its id at line 122. The second binding
    replaces the first, so \<^verbatim>\<open>self.get_session()\<close>, which every method of the class calls to
    open its ORM session, is a call of the lookup without its argument and raises TypeError.
  \<^item> JSON values the code reads from a provider are strings, integers or null
    (\<open>jv\<close>); a dictionary is an association list. Strings are byte strings.
  \<^item> Random values (\<^verbatim>\<open>secrets.token_bytes\<close>), HTTP responses and SHA-256 are arguments.
\<close>

subsection \<open>Values and errors\<close>

datatype jv = JNull | JStr string | JInt int

type_synonym jdict = "(string \<times> jv) list"

datatype error =
    ValueError string
  | KeyError string
  | AttributeError
  | TypeError
  | IntegrityError
  | HTTPError
  | OverflowError

text \<open>Python truthiness of a JSON value (\<^verbatim>\<open>if x\<close>, \<^verbatim>\<open>x or y\<close>).\<close>

fun truthy :: "jv \<Rightarrow> bool" where
  "truthy JNull = False"
| "truthy (JStr s) = (s \<noteq> [])"
| "truthy (JInt n) = (n \<noteq> 0)"

text \<open>\<^verbatim>\<open>d[k]\<close> raises KeyError on a missing key; \<^verbatim>\<open>d.get(k, default)\<close> does not.\<close>

definition getitem :: "jdict \<Rightarrow> string \<Rightarrow> error + jv" where
  "getitem d k = (case map_of d k of None \<Rightarrow> Inl (KeyError k) | Some v \<Rightarrow> Inr v)"

definition get_default :: "jdict \<Rightarrow> string \<Rightarrow> jv \<Rightarrow> jv" where
  "get_default d k dflt = (case map_of d k of None \<Rightarrow> dflt | Some v \<Rightarrow> v)"

text \<open>Sequencing of two steps of which the first may raise.\<close>

fun bind :: "error + 'a \<Rightarrow> ('a \<Rightarrow> error + 'b) \<Rightarrow> error + 'b" where
  "bind (Inl e) f = Inl e"
| "bind (Inr x) f = f x"

text \<open>
  \<^verbatim>\<open>timedelta\<close> in microseconds. \<^verbatim>\<open>timedelta(seconds=n)\<close> raises OverflowError when its
  number of days, \<open>n div 86400\<close>, has a magnitude above 999999999.
\<close>

definition timedelta_seconds :: "int \<Rightarrow> error + int" where
  "timedelta_seconds n =
     (if - 999999999 \<le> n div 86400 \<and> n div 86400 \<le> 999999999 then Inr (n * 1000000)
      else Inl OverflowError)"

definition timedelta_minutes :: "int \<Rightarrow> int" where
  "timedelta_minutes n = n * 60000000"

definition timedelta_days :: "int \<Rightarrow> int" where
  "timedelta_days n = n * 86400000000"

text \<open>
  \<^verbatim>\<open>datetime.max\<close> is the last microsecond of 9999-12-31, day 3652059 of the calendar;
  \<^verbatim>\<open>datetime + timedelta\<close> raises OverflowError outside \<^verbatim>\<open>datetime.min\<close> .. \<^verbatim>\<open>datetime.max\<close>.
\<close>

definition datetime_max :: int where
  "datetime_max = 3652059 * 86400000000 - 1"

definition datetime_add :: "int \<Rightarrow> int \<Rightarrow> error + int" where
  "datetime_add t d =
     (if 0 \<le> t + d \<and> t + d \<le> datetime_max then Inr (t + d) else Inl OverflowError)"

subsection \<open>models.py\<close>

record user =
  user_id :: string
  external_id :: string
  provider :: string
  username :: jv
  display_name :: jv
  email :: jv
  avatar_url :: jv
  bio :: jv
  expertise :: "string list option"
  vanity_subdomain :: jv
  oauth_token :: jv
  oauth_refresh :: jv
  oauth_expires :: "int option"
  created_at :: int
  last_activity :: int

record session =
  session_id :: string
  session_user_id :: string
  session_created_at :: "int option"
  session_expires_at :: int

record oauth_state =
  state :: string
  code_verifier :: string
  state_provider :: string
  state_created_at :: int
  state_expires_at :: int

text \<open>\<^verbatim>\<open>OAuthState.is_expired\<close>: \<^verbatim>\<open>datetime.utcnow() > self.expires_at\<close>.\<close>

definition is_expired :: "oauth_state \<Rightarrow> int \<Rightarrow> bool" where
  "is_expired s now = (now > state_expires_at s)"

subsection \<open>database.py\<close>

record database =
  users :: "user list"
  sessions :: "session list"
  oauth_states :: "oauth_state list"

text \<open>
  The constraints of the \<^verbatim>\<open>users\<close> table: \<^verbatim>\<open>username\<close> and \<^verbatim>\<open>display_name\<close> are not null;
  \<^verbatim>\<open>external_id\<close> is unique; \<^verbatim>\<open>vanity_subdomain\<close> is unique among the rows where it is not
  null.
\<close>

definition not_null_ok :: "user \<Rightarrow> bool" where
  "not_null_ok u = (username u \<noteq> JNull \<and> display_name u \<noteq> JNull)"

definition unique_conflict :: "user \<Rightarrow> user \<Rightarrow> bool" where
  "unique_conflict u r =
     (external_id r = external_id u \<or>
      (vanity_subdomain u \<noteq> JNull \<and> vanity_subdomain r = vanity_subdomain u))"

text \<open>
  \<^verbatim>\<open>get_session\<close> is the method of line 122, \<^verbatim>\<open>get_session(self, session_id)\<close>; its argument
  is \<open>None\<close> for a call that passes no \<^verbatim>\<open>session_id\<close>, which raises TypeError before the
  body runs. The body itself opens its ORM session with such a call.
\<close>

function get_session :: "database \<Rightarrow> string option \<Rightarrow> error + session option" where
  "get_session db None = Inl TypeError"
| "get_session db (Some sid) =
     bind (get_session db None) (\<lambda>db_session.
       Inr (find (\<lambda>r. session_id r = sid) (sessions db)))"
  by pat_completeness auto

termination get_session
  by (relation "measure (\<lambda>(db, arg). case arg of None \<Rightarrow> 0 | Some sid \<Rightarrow> 1)") auto

definition create_user :: "database \<Rightarrow> user \<Rightarrow> error + database" where
  "create_user db u =
     bind (get_session db None) (\<lambda>session.
       if \<not> not_null_ok u then Inl IntegrityError
       else if list_ex (\<lambda>r. user_id r = user_id u) (users db) then Inl IntegrityError
       else if list_ex (unique_conflict u) (users db) then Inl IntegrityError
       else Inr (db\<lparr>users := users db @ [u]\<rparr>))"

definition get_user :: "database \<Rightarrow> string \<Rightarrow> error + user option" where
  "get_user db uid =
     bind (get_session db None) (\<lambda>session. Inr (find (\<lambda>r. user_id r = uid) (users db)))"

definition get_user_by_external_id :: "database \<Rightarrow> string \<Rightarrow> error + user option" where
  "get_user_by_external_id db eid =
     bind (get_session db None) (\<lambda>session. Inr (find (\<lambda>r. external_id r = eid) (users db)))"

text \<open>
  \<^verbatim>\<open>update_user\<close> is \<^verbatim>\<open>session.merge(user)\<close>: the row with the primary key of \<open>u\<close> takes the
  attributes of \<open>u\<close>; without such a row, \<open>u\<close> is inserted.
\<close>

definition update_user :: "database \<Rightarrow> user \<Rightarrow> error + database" where
  "update_user db u =
     bind (get_session db None) (\<lambda>session.
       if \<not> not_null_ok u then Inl IntegrityError
       else if list_ex (unique_conflict u) (filter (\<lambda>r. user_id r \<noteq> user_id u) (users db))
         then Inl IntegrityError
       else if list_ex (\<lambda>r. user_id r = user_id u) (users db)
         then Inr (db\<lparr>users := map (\<lambda>r. if user_id r = user_id u then u else r) (users db)\<rparr>)
       else Inr (db\<lparr>users := users db @ [u]\<rparr>))"

text \<open>
  \<^verbatim>\<open>create_session\<close> inserts the row and refreshes the object it was given, which it
  returns. A row without \<^verbatim>\<open>created_at\<close> gets the column default, the clock at the insert
  (\<open>now_default\<close>).
\<close>

definition create_session ::
  "database \<Rightarrow> session \<Rightarrow> int \<Rightarrow> error + (session \<times> database)" where
  "create_session db s now_default =
     bind (get_session db None) (\<lambda>db_session.
       if list_ex (\<lambda>r. session_id r = session_id s) (sessions db) then Inl IntegrityError
       else
         let s' = (case session_created_at s of
                     None \<Rightarrow> s\<lparr>session_created_at := Some now_default\<rparr>
                   | Some t \<Rightarrow> s)
         in Inr (s', db\<lparr>sessions := sessions db @ [s']\<rparr>))"

definition delete_session :: "database \<Rightarrow> string \<Rightarrow> error + database" where
  "delete_session db sid =
     bind (get_session db None) (\<lambda>db_session.
       Inr (db\<lparr>sessions := filter (\<lambda>r. session_id r \<noteq> sid) (sessions db)\<rparr>))"

text \<open>
  \<^verbatim>\<open>store_oauth_state\<close> builds the row first, reading the clock once for \<^verbatim>\<open>created_at\<close>
  (\<open>now_created\<close>) and once more for \<^verbatim>\<open>expires_at\<close> (\<open>now_expires\<close>), and then opens its
  session.
\<close>

definition store_oauth_state ::
  "database \<Rightarrow> string \<Rightarrow> string \<Rightarrow> string \<Rightarrow> int \<Rightarrow> int \<Rightarrow> error + database" where
  "store_oauth_state db st verifier prov now_created now_expires =
     bind (datetime_add now_expires (timedelta_minutes 10)) (\<lambda>expires.
     bind (get_session db None) (\<lambda>session.
       if list_ex (\<lambda>r. state r = st) (oauth_states db) then Inl IntegrityError
       else Inr (db\<lparr>oauth_states := oauth_states db @
         [\<lparr>state = st, code_verifier = verifier, state_provider = prov,
           state_created_at = now_created,
           state_expires_at = expires\<rparr>]\<rparr>)))"

text \<open>The dictionary \<^verbatim>\<open>get_oauth_state\<close> returns is the pair (code_verifier, provider).\<close>

definition get_oauth_state ::
  "database \<Rightarrow> string \<Rightarrow> int \<Rightarrow> error + (string \<times> string) option" where
  "get_oauth_state db st now =
     bind (get_session db None) (\<lambda>session.
       Inr (case find (\<lambda>r. state r = st) (oauth_states db) of
              None \<Rightarrow> None
            | Some r \<Rightarrow>
                if is_expired r now then None else Some (code_verifier r, state_provider r)))"

definition delete_oauth_state :: "database \<Rightarrow> string \<Rightarrow> error + database" where
  "delete_oauth_state db st =
     bind (get_session db None) (\<lambda>session.
       Inr (db\<lparr>oauth_states := filter (\<lambda>r. state r \<noteq> st) (oauth_states db)\<rparr>))"

definition empty_db :: database where
  "empty_db = \<lparr>users = [], sessions = [], oauth_states = []\<rparr>"

subsection \<open>Byte strings: base64, URL quoting, case, search\<close>

definition b64_alphabet :: string where
  "b64_alphabet = ''ABCDEFGHIJKLMNOPQRSTUVWXYZabcdefghijklmnopqrstuvwxyz0123456789-_''"

definition b64_char :: "nat \<Rightarrow> char" where
  "b64_char n = b64_alphabet ! n"

text \<open>
  \<^verbatim>\<open>base64.urlsafe_b64encode\<close>: three bytes give four characters of the URL-safe
  alphabet; a last group of one or two bytes is padded with \<^verbatim>\<open>=\<close>.
\<close>

fun urlsafe_b64encode :: "string \<Rightarrow> string" where
  "urlsafe_b64encode [] = []"
| "urlsafe_b64encode [a] =
     [b64_char (of_char a div 4), b64_char ((of_char a mod 4) * 16), CHR ''='', CHR ''='']"
| "urlsafe_b64encode [a, b] =
     [b64_char (of_char a div 4),
      b64_char ((of_char a mod 4) * 16 + of_char b div 16),
      b64_char ((of_char b mod 16) * 4), CHR ''='']"
| "urlsafe_b64encode (a # b # c # rest) =
     [b64_char (of_char a div 4),
      b64_char ((of_char a mod 4) * 16 + of_char b div 16),
      b64_char ((of_char b mod 16) * 4 + of_char c div 64),
      b64_char (of_char c mod 64)] @ urlsafe_b64encode rest"

text \<open>\<^verbatim>\<open>s.rstrip(c)\<close> for a single character \<open>c\<close>.\<close>

definition rstrip :: "char \<Rightarrow> string \<Rightarrow> string" where
  "rstrip c s = rev (dropWhile (\<lambda>x. x = c) (rev s))"

text \<open>
  \<^verbatim>\<open>secrets.token_urlsafe(n)\<close> is
  \<^verbatim>\<open>base64.urlsafe_b64encode(token_bytes(n)).rstrip(b'=').decode('ascii')\<close>; \<open>rnd\<close> is the
  value of \<^verbatim>\<open>token_bytes(n)\<close>.
\<close>

definition token_urlsafe :: "string \<Rightarrow> string" where
  "token_urlsafe rnd = rstrip CHR ''='' (urlsafe_b64encode rnd)"

text \<open>
  \<^verbatim>\<open>urllib.parse.quote_plus\<close> on the bytes of a string: letters, digits and \<^verbatim>\<open>_.-~\<close> stay,
  a space becomes \<^verbatim>\<open>+\<close>, any other byte becomes \<^verbatim>\<open>%XX\<close>.
\<close>

definition always_safe :: string where
  "always_safe =
     ''ABCDEFGHIJKLMNOPQRSTUVWXYZabcdefghijklmnopqrstuvwxyz0123456789_.-~''"

definition hex_digit :: "nat \<Rightarrow> char" where
  "hex_digit n = ''0123456789ABCDEF'' ! n"

definition quote_char :: "char \<Rightarrow> string" where
  "quote_char c =
     (if c \<in> set always_safe then [c]
      else if c = CHR '' '' then ''+''
      else [CHR ''%'', hex_digit (of_char c div 16), hex_digit (of_char c mod 16)])"

definition quote_plus :: "string \<Rightarrow> string" where
  "quote_plus s = concat (map quote_char s)"

text \<open>\<^verbatim>\<open>urllib.parse.urlencode\<close> of a dictionary of strings, in insertion order.\<close>

fun urlencode :: "(string \<times> string) list \<Rightarrow> string" where
  "urlencode [] = []"
| "urlencode [(k, v)] = quote_plus k @ ''='' @ quote_plus v"
| "urlencode ((k, v) # kv # rest) =
     quote_plus k @ ''='' @ quote_plus v @ ''&'' @ urlencode (kv # rest)"

text \<open>\<^verbatim>\<open>str.lower\<close> and \<^verbatim>\<open>str.upper\<close> on ASCII letters; other bytes are unchanged.\<close>

definition lower_char :: "char \<Rightarrow> char" where
  "lower_char c =
     (if CHR ''A'' \<le> c \<and> c \<le> CHR ''Z'' then char_of (of_char c + (32::nat)) else c)"

definition upper_char :: "char \<Rightarrow> char" where
  "upper_char c =
     (if CHR ''a'' \<le> c \<and> c \<le> CHR ''z'' then char_of (of_char c - (32::nat)) else c)"

definition lower :: "string \<Rightarrow> string" where
  "lower s = map lower_char s"

definition upper :: "string \<Rightarrow> string" where
  "upper s = map upper_char s"

text \<open>\<^verbatim>\<open>sub in s\<close> for strings.\<close>

fun contains :: "string \<Rightarrow> string \<Rightarrow> bool" where
  "contains [] sub = (sub = [])"
| "contains (c # s) sub = (take (length sub) (c # s) = sub \<or> contains s sub)"

text \<open>\<^verbatim>\<open>s.replace(old, new)\<close> for a non-empty \<open>old\<close>, left to right.\<close>

fun replace :: "string \<Rightarrow> string \<Rightarrow> string \<Rightarrow> string" where
  "replace old new [] = []"
| "replace old new (c # s) =
     (if old \<noteq> [] \<and> take (length old) (c # s) = old
      then new @ replace old new (drop (length old) (c # s))
      else c # replace old new s)"

text \<open>\<^verbatim>\<open>s.strip()\<close>: ASCII whitespace off both ends.\<close>

definition is_space :: "char \<Rightarrow> bool" where
  "is_space c = (c \<in> set [CHR '' '', CHR 0x09, CHR 0x0A, CHR 0x0B, CHR 0x0C, CHR 0x0D])"

definition strip :: "string \<Rightarrow> string" where
  "strip s = rev (dropWhile is_space (rev (dropWhile is_space s)))"

text \<open>\<^verbatim>\<open>str(n)\<close> for an integer, and the text an f-string gives a JSON value.\<close>

fun digits :: "nat \<Rightarrow> string" where
  "digits n = (if n < 10 then [char_of (48 + n)] else digits (n div 10) @ [char_of (48 + n mod 10)])"

definition str_int :: "int \<Rightarrow> string" where
  "str_int i = (if i < 0 then CHR ''-'' # digits (nat (- i)) else digits (nat i))"

fun py_str :: "jv \<Rightarrow> string" where
  "py_str JNull = ''None''"
| "py_str (JStr s) = s"
| "py_str (JInt i) = str_int i"

subsection \<open>auth.py: configuration\<close>

record provider_config =
  auth_url :: string
  token_url :: string
  user_info_url :: string
  repos_url :: "string option"
  scope :: string
  user_fields :: "string option"

definition PROVIDERS :: "string \<Rightarrow> provider_config option" where
  "PROVIDERS p =
     (if p = ''twitter'' then Some
        \<lparr>auth_url = ''https://twitter.com/i/oauth2/authorize'',
         token_url = ''https://api.twitter.com/2/oauth2/token'',
         user_info_url = ''https://api.twitter.com/2/users/me'',
         repos_url = None,
         scope = ''tweet.read users.read follows.read'',
         user_fields = Some ''id,username,name,description,public_metrics,profile_image_url''\<rparr>
      else if p = ''github'' then Some
        \<lparr>auth_url = ''https://github.com/login/oauth/authorize'',
         token_url = ''https://github.com/login/oauth/access_token'',
         user_info_url = ''https://api.github.com/user'',
         repos_url = Some ''https://api.github.com/user/repos'',
         scope = ''read:user user:email'',
         user_fields = None\<rparr>
      else if p = ''discord'' then Some
        \<lparr>auth_url = ''https://discord.com/api/oauth2/authorize'',
         token_url = ''https://discord.com/api/oauth2/token'',
         user_info_url = ''https://discord.com/api/users/@me'',
         repos_url = None,
         scope = ''identify email guilds'',
         user_fields = None\<rparr>
      else if p = ''linkedin'' then Some
        \<lparr>auth_url = ''https://www.linkedin.com/oauth/v2/authorization'',
         token_url = ''https://www.linkedin.com/oauth/v2/accessToken'',
         user_info_url = ''https://api.linkedin.com/v2/me'',
         repos_url = None,
         scope = ''r_liteprofile r_emailaddress'',
         user_fields = None\<rparr>
      else None)"

text \<open>
  \<^verbatim>\<open>SocialAuth.__init__\<close>: the callback base URL and, for each of the four providers, the
  client id and secret of the environment (\<open>None\<close> when the variable is not set).
\<close>

record credential =
  client_id :: "string option"
  client_secret :: "string option"

record social_auth =
  callback_base_url :: string
  credentials :: "string \<Rightarrow> credential"

subsection \<open>auth.py: PKCE and state\<close>

definition generate_code_verifier :: "string \<Rightarrow> string" where
  "generate_code_verifier rnd = rstrip CHR ''='' (urlsafe_b64encode rnd)"

definition generate_code_challenge :: "(string \<Rightarrow> string) \<Rightarrow> string \<Rightarrow> string" where
  "generate_code_challenge sha256 verifier = rstrip CHR ''='' (urlsafe_b64encode (sha256 verifier))"

definition generate_state :: "string \<Rightarrow> string \<Rightarrow> string" where
  "generate_state rnd redirect_path = token_urlsafe rnd @ '':'' @ redirect_path"

definition generate_user_id :: "string \<Rightarrow> string" where
  "generate_user_id rnd = ''user_'' @ token_urlsafe rnd"

definition generate_session_id :: "string \<Rightarrow> string" where
  "generate_session_id rnd = token_urlsafe rnd"


text \<open>The dictionary \<^verbatim>\<open>params\<close> of \<^verbatim>\<open>get_auth_url\<close>.\<close>

definition auth_params ::
  "social_auth \<Rightarrow> provider_config \<Rightarrow> string \<Rightarrow> string \<Rightarrow> string \<Rightarrow> string \<Rightarrow> (string \<times> string) list" where
  "auth_params auth config prov cid st code_challenge =
     [(''client_id'', cid),
      (''redirect_uri'', callback_base_url auth @ ''/auth/callback/'' @ prov),
      (''response_type'', ''code''),
      (''scope'', scope config),
      (''state'', st),
      (''code_challenge'', code_challenge),
      (''code_challenge_method'', ''S256'')]"

text \<open>
  \<^verbatim>\<open>get_auth_url\<close>. \<open>rnd_verifier\<close> is \<^verbatim>\<open>secrets.token_bytes(32)\<close> of the verifier and
  \<open>rnd_state\<close> is \<^verbatim>\<open>token_bytes(16)\<close> of the state; \<open>sha256\<close> is
  \<^verbatim>\<open>hashlib.sha256(...).digest()\<close>; \<open>now_created\<close> and \<open>now_expires\<close> are the two readings
  of the clock in \<^verbatim>\<open>store_oauth_state\<close>.
\<close>

definition get_auth_url ::
  "social_auth \<Rightarrow> (string \<Rightarrow> string) \<Rightarrow> database \<Rightarrow> string \<Rightarrow> string \<Rightarrow> string \<Rightarrow> string \<Rightarrow> int
     \<Rightarrow> int \<Rightarrow> error + (string \<times> database)" where
  "get_auth_url auth sha256 db prov redirect_path rnd_verifier rnd_state now_created now_expires =
     (case PROVIDERS prov of
        None \<Rightarrow> Inl (ValueError (''Unknown provider: '' @ prov))
      | Some config \<Rightarrow>
          (case client_id (credentials auth prov) of
             None \<Rightarrow> Inl (ValueError (''Missing '' @ upper prov @ ''_CLIENT_ID in environment''))
           | Some cid \<Rightarrow>
               if cid = [] then
                 Inl (ValueError (''Missing '' @ upper prov @ ''_CLIENT_ID in environment''))
               else
                 let verifier = generate_code_verifier rnd_verifier;
                     code_challenge = generate_code_challenge sha256 verifier;
                     st = generate_state rnd_state redirect_path
                 in (case store_oauth_state db st verifier prov now_created now_expires of
                       Inl e \<Rightarrow> Inl e
                     | Inr db' \<Rightarrow>
                         Inr (auth_url config @ ''?'' @
                                urlencode (auth_params auth config prov cid st code_challenge),
                              db'))))"

subsection \<open>auth.py: the provider's HTTP endpoints\<close>

text \<open>
  A response has a status code and a body; \<^verbatim>\<open>response.json()\<close> returns the decoded body or
  raises. \<^verbatim>\<open>raise_for_status\<close> of httpx raises on every status outside 2xx.
\<close>

record 'a response =
  status_code :: nat
  json :: "error + 'a"

definition raise_for_status :: "'a response \<Rightarrow> error + unit" where
  "raise_for_status r =
     (if 200 \<le> status_code r \<and> status_code r < 300 then Inr () else Inl HTTPError)"

text \<open>
  The profile a provider returns: its scalar entries, the entry \<^verbatim>\<open>"data"\<close> (an object,
  when present) and the entry \<^verbatim>\<open>"repos"\<close> (a list of objects, when present).
\<close>

record user_info =
  info_fields :: jdict
  info_data :: "jdict option"
  info_repos :: "jdict list option"

text \<open>
  What one callback reads from outside: the three HTTP calls (the URL, the form data or
  the Authorization header and the query parameters; \<open>Inl\<close> is a transport error), the
  clock at the state lookup, the three readings of the clock in the upsert (token expiry,
  \<^verbatim>\<open>created_at\<close>, \<^verbatim>\<open>last_activity\<close>; an update reads the first two) and the reading at the
  session creation and at the insert of the session, and the random bytes of the user id
  and of the session id.
\<close>

record world =
  http_post :: "string \<Rightarrow> jdict \<Rightarrow> error + jdict response"
  http_get_user :: "string \<Rightarrow> string \<Rightarrow> jdict \<Rightarrow> error + user_info response"
  http_get_repos :: "string \<Rightarrow> string \<Rightarrow> jdict \<Rightarrow> error + (jdict list) response"
  now_state :: int
  now_user1 :: int
  now_user2 :: int
  now_user3 :: int
  now_session :: int
  now_session_default :: int
  rnd_user_id :: string
  rnd_session_id :: string

definition opt_jv :: "string option \<Rightarrow> jv" where
  "opt_jv x = (case x of None \<Rightarrow> JNull | Some s \<Rightarrow> JStr s)"

definition exchange_code_for_token ::
  "social_auth \<Rightarrow> world \<Rightarrow> string \<Rightarrow> string \<Rightarrow> string \<Rightarrow> error + jdict" where
  "exchange_code_for_token auth w prov code verifier =
     (case PROVIDERS prov of
        None \<Rightarrow> Inl (KeyError prov)
      | Some config \<Rightarrow>
          (case http_post w (token_url config)
                  [(''client_id'', opt_jv (client_id (credentials auth prov))),
                   (''client_secret'', opt_jv (client_secret (credentials auth prov))),
                   (''code'', JStr code),
                   (''grant_type'', JStr ''authorization_code''),
                   (''redirect_uri'', JStr (callback_base_url auth @ ''/auth/callback/'' @ prov)),
                   (''code_verifier'', JStr verifier)] of
             Inl e \<Rightarrow> Inl e
           | Inr resp \<Rightarrow>
               (case raise_for_status resp of
                  Inl e \<Rightarrow> Inl e
                | Inr _ \<Rightarrow> json resp)))"

definition get_user_info :: "world \<Rightarrow> string \<Rightarrow> jv \<Rightarrow> error + user_info" where
  "get_user_info w prov access_token =
     (case PROVIDERS prov of
        None \<Rightarrow> Inl (KeyError prov)
      | Some config \<Rightarrow>
          (case http_get_user w (user_info_url config) (''Bearer '' @ py_str access_token)
                  (if prov = ''twitter'' then [(''user.fields'', opt_jv (user_fields config))] else []) of
             Inl e \<Rightarrow> Inl e
           | Inr resp \<Rightarrow>
               (case raise_for_status resp of
                  Inl e \<Rightarrow> Inl e
                | Inr _ \<Rightarrow>
                    (case json resp of
                       Inl e \<Rightarrow> Inl e
                     | Inr body \<Rightarrow>
                         let user_data =
                               (if prov = ''twitter'' then
                                  (case info_data body of
                                     Some d \<Rightarrow> \<lparr>info_fields = d, info_data = None, info_repos = None\<rparr>
                                   | None \<Rightarrow> body)
                                else body)
                         in if prov = ''github'' then
                              (case repos_url config of
                                 None \<Rightarrow> Inl (KeyError ''repos_url'')
                               | Some url \<Rightarrow>
                                   (case http_get_repos w url (''Bearer '' @ py_str access_token)
                                           [(''sort'', JStr ''updated''), (''per_page'', JInt 10)] of
                                      Inl e \<Rightarrow> Inl e
                                    | Inr rresp \<Rightarrow>
                                        if status_code rresp = 200 then
                                          (case json rresp of
                                             Inl e \<Rightarrow> Inl e
                                           | Inr repos \<Rightarrow> Inr (user_data\<lparr>info_repos := Some repos\<rparr>))
                                        else Inr user_data))
                            else Inr user_data))))"

subsection \<open>auth.py: normalisation and expertise\<close>

record normalized =
  norm_id :: jv
  norm_username :: jv
  norm_display_name :: jv
  norm_avatar_url :: jv
  norm_bio :: jv
  norm_email :: jv

text \<open>A method of \<^verbatim>\<open>str\<close> called on a value that is not a string raises AttributeError.\<close>

fun str_method :: "(string \<Rightarrow> string) \<Rightarrow> jv \<Rightarrow> error + string" where
  "str_method f (JStr s) = Inr (f s)"
| "str_method f JNull = Inl AttributeError"
| "str_method f (JInt n) = Inl AttributeError"

definition normalize_user_data :: "string \<Rightarrow> user_info \<Rightarrow> error + normalized" where
  "normalize_user_data prov info =
     (let d = info_fields info in
      if prov = ''twitter'' then
        bind (getitem d ''id'') (\<lambda>i.
        bind (getitem d ''username'') (\<lambda>u.
        bind (getitem d ''name'') (\<lambda>n.
        bind (str_method (replace ''_normal'' ''_400x400'')
               (get_default d ''profile_image_url'' (JStr []))) (\<lambda>a.
        Inr \<lparr>norm_id = i, norm_username = u, norm_display_name = n,
             norm_avatar_url = JStr a,
             norm_bio = get_default d ''description'' (JStr []),
             norm_email = JNull\<rparr>))))
      else if prov = ''github'' then
        bind (getitem d ''id'') (\<lambda>i.
        bind (getitem d ''login'') (\<lambda>u.
        bind (if truthy (get_default d ''name'' JNull)
              then Inr (get_default d ''name'' JNull) else getitem d ''login'') (\<lambda>n.
        bind (getitem d ''avatar_url'') (\<lambda>a.
        Inr \<lparr>norm_id = JStr (py_str i), norm_username = u, norm_display_name = n,
             norm_avatar_url = a,
             norm_bio = get_default d ''bio'' (JStr []),
             norm_email = get_default d ''email'' JNull\<rparr>))))
      else if prov = ''discord'' then
        bind (getitem d ''id'') (\<lambda>i.
        bind (getitem d ''username'') (\<lambda>u.
        bind (if truthy (get_default d ''global_name'' JNull)
              then Inr (get_default d ''global_name'' JNull) else getitem d ''username'') (\<lambda>n.
        bind (getitem d ''avatar'') (\<lambda>a.
        Inr \<lparr>norm_id = i, norm_username = u, norm_display_name = n,
             norm_avatar_url = JStr (''https://cdn.discordapp.com/avatars/'' @ py_str i @ ''/'' @
                                      py_str a @ ''.png''),
             norm_bio = JStr [],
             norm_email = get_default d ''email'' JNull\<rparr>))))
      else if prov = ''linkedin'' then
        bind (getitem d ''id'') (\<lambda>i.
        Inr \<lparr>norm_id = i,
             norm_username = get_default d ''vanityName'' i,
             norm_display_name =
               JStr (strip (py_str (get_default d ''localizedFirstName'' (JStr [])) @ '' '' @
                            py_str (get_default d ''localizedLastName'' (JStr [])))),
             norm_avatar_url = JStr [],
             norm_bio = JStr [],
             norm_email = JNull\<rparr>)
      else Inl (ValueError (''Unknown provider: '' @ prov)))"

definition expertise_keywords :: "string list" where
  "expertise_keywords =
     [''javascript'', ''typescript'', ''python'', ''rust'', ''go'', ''java'', ''c++'',
      ''react'', ''vue'', ''angular'', ''node'', ''django'', ''flask'', ''fastapi'',
      ''design'', ''ui/ux'', ''figma'', ''marketing'', ''seo'', ''content'',
      ''crypto'', ''web3'', ''blockchain'', ''defi'', ''nft'',
      ''ai'', ''ml'', ''machine learning'', ''llm'', ''gpt'',
      ''devops'', ''docker'', ''kubernetes'', ''aws'', ''gcp'']"

text \<open>The tags one repository adds: its language, then the keywords of its description.\<close>

definition repo_tags :: "jdict \<Rightarrow> error + string list" where
  "repo_tags repo =
     bind (if truthy (get_default repo ''language'' JNull)
           then bind (str_method lower (get_default repo ''language'' JNull)) (\<lambda>l. Inr [l])
           else Inr []) (\<lambda>lang.
     bind (if truthy (get_default repo ''description'' JNull)
           then str_method lower (get_default repo ''description'' JNull)
           else Inr []) (\<lambda>desc.
     Inr (lang @ filter (\<lambda>k. contains desc k) expertise_keywords)))"

fun repos_tags :: "jdict list \<Rightarrow> error + string list" where
  "repos_tags [] = Inr []"
| "repos_tags (repo # rest) =
     bind (repo_tags repo) (\<lambda>ts. bind (repos_tags rest) (\<lambda>more. Inr (ts @ more)))"

definition extract_expertise :: "jv \<Rightarrow> string \<Rightarrow> user_info \<Rightarrow> error + string list" where
  "extract_expertise b prov info =
     bind (str_method lower b) (\<lambda>bio_lower.
     bind (if prov = ''github'' then
             (case info_repos info of
                None \<Rightarrow> Inr []
              | Some repos \<Rightarrow> repos_tags (take 10 repos))
           else Inr []) (\<lambda>from_repos.
     Inr (sort (remdups (filter (\<lambda>k. contains bio_lower k) expertise_keywords @ from_repos)))))"

subsection \<open>auth.py: the upsert, the session and the callback\<close>

text \<open>
  \<^verbatim>\<open>datetime.utcnow() + timedelta(seconds=token_data.get("expires_in", 3600))\<close>; a value
  that is not a number raises TypeError, a number out of range OverflowError.
\<close>

definition token_expiry :: "jdict \<Rightarrow> int \<Rightarrow> error + int" where
  "token_expiry token_data now =
     (case get_default token_data ''expires_in'' (JInt 3600) of
        JInt n \<Rightarrow> bind (timedelta_seconds n) (\<lambda>d. datetime_add now d)
      | JStr s \<Rightarrow> Inl TypeError
      | JNull \<Rightarrow> Inl TypeError)"

text \<open>
  \<^verbatim>\<open>_create_or_update_user\<close>. The only write is the last step of either branch, so an
  error leaves the database as it was. \<open>rnd\<close> is \<^verbatim>\<open>token_bytes(16)\<close> of the user id;
  \<open>t1\<close>, \<open>t2\<close> and \<open>t3\<close> are the successive readings of the clock.
\<close>

definition create_or_update_user ::
  "database \<Rightarrow> string \<Rightarrow> user_info \<Rightarrow> jdict \<Rightarrow> int \<Rightarrow> int \<Rightarrow> int \<Rightarrow> string
     \<Rightarrow> error + (user \<times> database)" where
  "create_or_update_user db prov info token_data t1 t2 t3 rnd =
     bind (normalize_user_data prov info) (\<lambda>n.
       let eid = prov @ '':'' @ py_str (norm_id n) in
       bind (get_user_by_external_id db eid) (\<lambda>found.
       (case found of
          Some u \<Rightarrow>
            bind (extract_expertise (norm_bio n) prov info) (\<lambda>tags.
            bind (getitem token_data ''access_token'') (\<lambda>tok.
            bind (token_expiry token_data t1) (\<lambda>expires.
              let u' = u\<lparr>display_name := norm_display_name n,
                         avatar_url := norm_avatar_url n,
                         bio := norm_bio n,
                         expertise := Some tags,
                         oauth_token := tok,
                         oauth_refresh := get_default token_data ''refresh_token'' JNull,
                         oauth_expires := Some expires,
                         last_activity := t2\<rparr>
              in bind (update_user db u') (\<lambda>db'. Inr (u', db')))))
        | None \<Rightarrow>
            bind (extract_expertise (norm_bio n) prov info) (\<lambda>tags.
            bind (getitem token_data ''access_token'') (\<lambda>tok.
            bind (token_expiry token_data t1) (\<lambda>expires.
              let u' = \<lparr>user_id = generate_user_id rnd,
                        external_id = eid,
                        provider = prov,
                        username = norm_username n,
                        display_name = norm_display_name n,
                        email = norm_email n,
                        avatar_url = norm_avatar_url n,
                        bio = norm_bio n,
                        expertise = Some tags,
                        vanity_subdomain = norm_username n,
                        oauth_token = tok,
                        oauth_refresh = get_default token_data ''refresh_token'' JNull,
                        oauth_expires = Some expires,
                        created_at = t2,
                        last_activity = t3\<rparr>
              in bind (create_user db u') (\<lambda>db'. Inr (u', db'))))))))"

text \<open>
  \<^verbatim>\<open>SocialAuth._create_session\<close>; \<open>rnd\<close> is \<^verbatim>\<open>token_bytes(32)\<close> of the session id. The
  session it returns is the object \<^verbatim>\<open>create_session\<close> has refreshed.
\<close>

definition social_auth_create_session ::
  "database \<Rightarrow> string \<Rightarrow> int \<Rightarrow> int \<Rightarrow> string \<Rightarrow> error + (session \<times> database)" where
  "social_auth_create_session db uid now now_default rnd =
     bind (datetime_add now (timedelta_days 30)) (\<lambda>expires.
       let s = \<lparr>session_id = generate_session_id rnd,
                 session_user_id = uid,
                 session_created_at = None,
                 session_expires_at = expires\<rparr>
       in create_session db s now_default)"

text \<open>
  \<^verbatim>\<open>handle_callback\<close> returns the user and the session or raises; in both cases the result
  is paired with the database the call leaves behind.
\<close>

definition handle_callback ::
  "social_auth \<Rightarrow> world \<Rightarrow> database \<Rightarrow> string \<Rightarrow> string \<Rightarrow> string
     \<Rightarrow> (error + (user \<times> session)) \<times> database" where
  "handle_callback auth w db prov code st =
     (case get_oauth_state db st (now_state w) of
        Inl e \<Rightarrow> (Inl e, db)
      | Inr None \<Rightarrow> (Inl (ValueError ''Invalid or expired OAuth state''), db)
      | Inr (Some (verifier, stored_provider)) \<Rightarrow>
          if prov \<noteq> stored_provider then
            (Inl (ValueError (''Provider mismatch: '' @ prov @ '' != '' @ stored_provider)), db)
          else
            (case exchange_code_for_token auth w prov code verifier of
               Inl e \<Rightarrow> (Inl e, db)
             | Inr token_data \<Rightarrow>
                 (case getitem token_data ''access_token'' of
                    Inl e \<Rightarrow> (Inl e, db)
                  | Inr access_token \<Rightarrow>
                      (case get_user_info w prov access_token of
                         Inl e \<Rightarrow> (Inl e, db)
                       | Inr info \<Rightarrow>
                           (case create_or_update_user db prov info token_data
                                   (now_user1 w) (now_user2 w) (now_user3 w) (rnd_user_id w) of
                              Inl e \<Rightarrow> (Inl e, db)
                            | Inr (u, db1) \<Rightarrow>
                                (case social_auth_create_session db1 (user_id u)
                                        (now_session w) (now_session_default w)
                                        (rnd_session_id w) of
                                   Inl e \<Rightarrow> (Inl e, db1)
                                 | Inr (s, db2) \<Rightarrow>
                                     (case delete_oauth_state db2 st of
                                        Inl e \<Rightarrow> (Inl e, db2)
                                      | Inr db3 \<Rightarrow> (Inr (u, s), db3))))))))"

text \<open>\<^verbatim>\<open>get_user_from_session\<close>.\<close>

definition get_user_from_session :: "database \<Rightarrow> string \<Rightarrow> int \<Rightarrow> error + user option" where
  "get_user_from_session db sid now =
     bind (get_session db (Some sid)) (\<lambda>found.
       (case found of
          None \<Rightarrow> Inr None
        | Some s \<Rightarrow>
            if session_expires_at s < now then Inr None else get_user db (session_user_id s)))"

subsection \<open>Fixtures\<close>

text \<open>
  Small inputs in the shape of those of \<^verbatim>\<open>tests/test_auth.py\<close>: a handler with credentials
  for every provider, a GitHub profile, the HTTP responses of a GitHub login, a database
  that holds one state, and a database that holds one user, one session and one state.
\<close>

definition test_auth :: social_auth where
  "test_auth =
     \<lparr>callback_base_url = ''http://localhost:8000'',
      credentials = (\<lambda>p. \<lparr>client_id = Some ''test_client'', client_secret = Some ''test_secret''\<rparr>)\<rparr>"

definition github_profile :: user_info where
  "github_profile =
     \<lparr>info_fields = [(''id'', JInt 7), (''login'', JStr ''u''), (''avatar_url'', JStr ''a'')],
      info_data = None, info_repos = None\<rparr>"

definition github_world :: "jdict \<Rightarrow> int \<Rightarrow> world" where
  "github_world token_data now =
     \<lparr>http_post = (\<lambda>url data. Inr \<lparr>status_code = 200, json = Inr token_data\<rparr>),
      http_get_user = (\<lambda>url auth params. Inr \<lparr>status_code = 200, json = Inr github_profile\<rparr>),
      http_get_repos = (\<lambda>url auth params. Inr \<lparr>status_code = 404, json = Inl HTTPError\<rparr>),
      now_state = now, now_user1 = now, now_user2 = now, now_user3 = now, now_session = now,
      now_session_default = now,
      rnd_user_id = ''a'', rnd_session_id = ''b''\<rparr>"

definition state_db :: database where
  "state_db =
     \<lparr>users = [], sessions = [],
      oauth_states =
        [\<lparr>state = ''s:/'', code_verifier = ''v'', state_provider = ''github'',
          state_created_at = 0, state_expires_at = 600000000\<rparr>]\<rparr>"

definition test_user :: user where
  "test_user =
     \<lparr>user_id = ''user_test'', external_id = ''github:7'', provider = ''github'',
      username = JStr ''u'', display_name = JStr ''Old Name'', email = JNull,
      avatar_url = JNull, bio = JNull, expertise = None, vanity_subdomain = JStr ''u'',
      oauth_token = JNull, oauth_refresh = JNull, oauth_expires = None,
      created_at = 0, last_activity = 0\<rparr>"

definition session_db :: database where
  "session_db =
     \<lparr>users = [test_user],
      sessions = [\<lparr>session_id = ''sid'', session_user_id = ''user_test'',
                   session_created_at = Some 0, session_expires_at = 100\<rparr>],
      oauth_states =
        [\<lparr>state = ''s:/'', code_verifier = ''v'', state_provider = ''github'',
          state_created_at = 0, state_expires_at = 600000000\<rparr>]\<rparr>"

section \<open>Properties\<close>

subsection \<open>Every method of the database raises TypeError\<close>

text \<open>
  \<^verbatim>\<open>get_session\<close> raises TypeError with and without its argument: without it the argument
  is missing, with it the body makes the call without it.
\<close>

lemma get_session_raises: "get_session db arg = Inl TypeError"
  by (cases arg) simp_all

lemma create_user_raises: "create_user db u = Inl TypeError"
  by (simp add: create_user_def)

lemma get_user_raises: "get_user db uid = Inl TypeError"
  by (simp add: get_user_def)

lemma get_user_by_external_id_raises: "get_user_by_external_id db eid = Inl TypeError"
  by (simp add: get_user_by_external_id_def)

lemma update_user_raises: "update_user db u = Inl TypeError"
  by (simp add: update_user_def)

lemma create_session_raises: "create_session db s now_default = Inl TypeError"
  by (simp add: create_session_def)

lemma delete_session_raises: "delete_session db sid = Inl TypeError"
  by (simp add: delete_session_def)

lemma get_oauth_state_raises: "get_oauth_state db st now = Inl TypeError"
  by (simp add: get_oauth_state_def)

lemma delete_oauth_state_raises: "delete_oauth_state db st = Inl TypeError"
  by (simp add: delete_oauth_state_def)

text \<open>
  \<^verbatim>\<open>store_oauth_state\<close> raises too and stores nothing: OverflowError when the expiry is out
  of the range of \<^verbatim>\<open>datetime\<close>, TypeError otherwise.
\<close>

lemma store_oauth_state_raises:
  "store_oauth_state db st verifier prov now_created now_expires =
     Inl (if 0 \<le> now_expires + timedelta_minutes 10
            \<and> now_expires + timedelta_minutes 10 \<le> datetime_max
          then TypeError else OverflowError)"
  by (simp add: store_oauth_state_def datetime_add_def)

subsection \<open>The functions of auth.py that call the database\<close>

lemma handle_callback_raises:
  "handle_callback auth w db prov code st = (Inl TypeError, db)"
  by (simp add: handle_callback_def get_oauth_state_raises)

lemma get_user_from_session_raises: "get_user_from_session db sid now = Inl TypeError"
  by (simp add: get_user_from_session_def get_session_raises)

text \<open>
  The upsert raises at its lookup, or before it when the profile cannot be normalised; it
  never reaches \<^verbatim>\<open>create_user\<close> or \<^verbatim>\<open>update_user\<close>.
\<close>

lemma create_or_update_user_raises:
  "create_or_update_user db prov info token_data t1 t2 t3 rnd =
     (case normalize_user_data prov info of Inl e \<Rightarrow> Inl e | Inr n \<Rightarrow> Inl TypeError)"
  by (cases "normalize_user_data prov info")
     (simp_all add: create_or_update_user_def get_user_by_external_id_raises Let_def)

text \<open>
  \<^verbatim>\<open>get_auth_url\<close> returns no URL: for an unknown provider and for a provider without
  client id it raises ValueError, otherwise it raises what \<^verbatim>\<open>store_oauth_state\<close> raises.
\<close>

lemma get_auth_url_raises:
  "\<exists>e. get_auth_url auth sha256 db prov redirect_path rnd_verifier rnd_state now_created
          now_expires = Inl e"
  by (simp add: get_auth_url_def store_oauth_state_raises Let_def split: option.splits)

lemma get_auth_url_known_provider:
  assumes "PROVIDERS prov = Some config"
    and "client_id (credentials auth prov) = Some cid" and "cid \<noteq> []"
    and "0 \<le> now_expires" and "now_expires + timedelta_minutes 10 \<le> datetime_max"
  shows "get_auth_url auth sha256 db prov redirect_path rnd_verifier rnd_state now_created
           now_expires = Inl TypeError"
  using assms
  by (simp add: get_auth_url_def store_oauth_state_raises Let_def timedelta_minutes_def)

subsection \<open>The claims at concrete inputs\<close>

text \<open>
  A callback that presents a stored, unexpired state for its own provider, C1: it raises
  TypeError and the state stays, and so does a second callback with the same state.
\<close>

lemma callback_with_stored_state_raises:
  "handle_callback test_auth (github_world [(''access_token'', JStr ''t'')] 5) state_db
      ''github'' ''c'' ''s:/'' = (Inl TypeError, state_db)
   \<and> get_oauth_state state_db ''s:/'' 5 = Inl TypeError"
  by (simp add: handle_callback_raises get_oauth_state_raises)

text \<open>
  Two first logins of the same GitHub account, C2: each upsert raises TypeError at its
  lookup, in whatever order their steps run, since no step writes; no user row exists
  afterwards.
\<close>

lemma first_logins_store_no_user:
  "create_or_update_user state_db ''github'' github_profile [(''access_token'', JStr ''t'')]
      5 5 5 ''a'' = Inl TypeError
   \<and> create_or_update_user state_db ''github'' github_profile [(''access_token'', JStr ''t'')]
      6 6 6 ''b'' = Inl TypeError
   \<and> users state_db = []"
proof -
  have "\<exists>n. normalize_user_data ''github'' github_profile = Inr n"
    by (simp add: normalize_user_data_def github_profile_def getitem_def get_default_def)
  then show ?thesis
    by (auto simp add: create_or_update_user_raises state_db_def)
qed

text \<open>
  Resolving a session, C3: the expired session, the session at the instant of its expiry,
  the session before its expiry and an unknown session id all raise TypeError.
\<close>

lemma resolve_session_raises:
  "get_user_from_session session_db ''sid'' 101 = Inl TypeError
   \<and> get_user_from_session session_db ''sid'' 100 = Inl TypeError
   \<and> get_user_from_session session_db ''sid'' 99 = Inl TypeError
   \<and> get_user_from_session session_db ''unknown'' 100 = Inl TypeError"
  by (simp add: get_user_from_session_raises)

text \<open>
  The authorization URL of a known provider with credentials, C4: none is returned, the
  call raises TypeError when it stores the state.
\<close>

lemma github_auth_url_raises:
  "get_auth_url test_auth sha256 state_db ''github'' ''/dashboard'' rnd_verifier rnd_state 5 5
     = Inl TypeError"
proof -
  have "PROVIDERS ''github'' \<noteq> None"
    by (simp add: PROVIDERS_def)
  then obtain config where "PROVIDERS ''github'' = Some config"
    by blast
  then show ?thesis
    by (rule get_auth_url_known_provider [where cid = "''test_client''"])
       (simp_all add: test_auth_def timedelta_minutes_def datetime_max_def)
qed

text \<open>
  A callback of a user that exists, C6 and C10: it raises TypeError, and the row of the
  user keeps every field, the mutable ones too.
\<close>

lemma callback_of_existing_user_raises:
  "handle_callback test_auth (github_world [(''access_token'', JStr ''t'')] 5) session_db
      ''github'' ''c'' ''s:/'' = (Inl TypeError, session_db)
   \<and> users session_db = [test_user]
   \<and> oauth_expires test_user = None"
  by (simp add: handle_callback_raises session_db_def test_user_def)

text \<open>
  A callback for another provider than the one of the state, C7: TypeError, not the error
  of a provider mismatch.
\<close>

lemma callback_for_other_provider_raises:
  "handle_callback test_auth (github_world [(''access_token'', JStr ''t'')] 5) state_db
      ''twitter'' ''c'' ''s:/'' = (Inl TypeError, state_db)"
  by (simp add: handle_callback_raises)

text \<open>
  A state stored and looked up eleven minutes later, C8: the store raises TypeError and
  stores nothing, and the lookup raises TypeError.
\<close>

lemma store_and_late_lookup_raise:
  "store_oauth_state empty_db ''test_state_expired'' ''verifier'' ''twitter'' 0 0 = Inl TypeError
   \<and> get_oauth_state empty_db ''test_state_expired'' (timedelta_minutes 11) = Inl TypeError"
  by (simp add: store_oauth_state_raises get_oauth_state_raises timedelta_minutes_def
        datetime_max_def)

subsection \<open>C9: a failed callback leaves the stores as they were\<close>

text \<open>
  C9. Every callback raises, at its first statement, and leaves the database it started
  from: the same users, the same sessions, the same states. This holds whatever the
  state, the provider, the code and the answers of the provider are, so it holds of a
  callback with an unknown or expired state, with the provider of another state, with a
  token exchange that fails and with a profile fetch that fails: no session is created
  and no user is created or updated.
\<close>

theorem failed_callback_leaves_stores:
  "fst (handle_callback auth w db prov code st) = Inl TypeError
   \<and> snd (handle_callback auth w db prov code st) = db
   \<and> users (snd (handle_callback auth w db prov code st)) = users db
   \<and> sessions (snd (handle_callback auth w db prov code st)) = sessions db"
  by (simp add: handle_callback_raises)

theorem failed_callback_leaves_stores_witness:
  "fst (handle_callback test_auth (github_world [] 5) session_db ''github'' ''c'' ''unknown'')
     = Inl TypeError
   \<and> snd (handle_callback test_auth (github_world [] 5) session_db ''github'' ''c'' ''unknown'')
     = session_db
   \<and> snd (handle_callback test_auth (github_world [] 700000000) session_db
            ''github'' ''c'' ''s:/'')
     = session_db
   \<and> snd (handle_callback test_auth (github_world [] 5) session_db ''twitter'' ''c'' ''s:/'')
     = session_db
   \<and> users (snd (handle_callback test_auth (github_world [] 5) session_db
                   ''github'' ''c'' ''s:/''))
     = [test_user]
   \<and> length (sessions (snd (handle_callback test_auth (github_world [] 5) session_db
                              ''github'' ''c'' ''s:/''))) = 1"
  using
    failed_callback_leaves_stores [of test_auth "github_world [] 5" session_db
      "''github''" "''c''" "''unknown''"]
    failed_callback_leaves_stores [of test_auth "github_world [] 700000000" session_db
      "''github''" "''c''" "''s:/''"]
    failed_callback_leaves_stores [of test_auth "github_world [] 5" session_db
      "''twitter''" "''c''" "''s:/''"]
    failed_callback_leaves_stores [of test_auth "github_world [] 5" session_db
      "''github''" "''c''" "''s:/''"]
  by (simp add: session_db_def)

subsection \<open>C5: the redirect path round-trips through the state\<close>












end
